theory Spec2Isabelle
  imports Main "HOL-Library.Sublist" "HOL-Library.AList" "HOL-Library.Multiset"
begin

section \<open>RustAutoComplete: the racer client of the Sublime Text plugin\<close>

text \<open>
  A shallow embedding of \<^verbatim>\<open>RustAutoComplete.py\<close>. Python text is kept as a HOL
  \<open>string\<close> holding its UTF-8 encoding, so that \<^verbatim>\<open>bytes.decode("utf-8")\<close> is a
  validity check and \<^verbatim>\<open>str.encode("utf-8")\<close> is the identity; \<^verbatim>\<open>len\<close> counts code
  points. Exceptions are values of \<open>py_error\<close>; what the plugin does to the outside
  world (spawning racer, printing to the console, opening a file) is a list of effects
  returned next to the result.
\<close>

subsection \<open>Python values and library functions\<close>

datatype py_error =
  IndexError | ValueError | AttributeError | UnicodeDecodeError
  | FileNotFoundError | PermissionError | OSError

text \<open>Sequencing of computations that may raise.\<close>

definition bind :: "py_error + 'a \<Rightarrow> ('a \<Rightarrow> py_error + 'b) \<Rightarrow> py_error + 'b" where
  "bind m f = (case m of Inl e \<Rightarrow> Inl e | Inr x \<Rightarrow> f x)"

text \<open>\<^verbatim>\<open>xs[i]\<close> for a non-negative literal index.\<close>

definition py_index :: "'a list \<Rightarrow> nat \<Rightarrow> py_error + 'a" where
  "py_index xs i = (if i < length xs then Inr (xs ! i) else Inl IndexError)"

text \<open>\<^verbatim>\<open>s.split(sep, maxsplit)\<close> for a one-character separator: at most \<open>maxsplit\<close>
  cuts, hence at most \<open>maxsplit + 1\<close> parts; the last part keeps the rest unsplit.\<close>

fun py_split :: "char \<Rightarrow> nat \<Rightarrow> string \<Rightarrow> string list" where
  "py_split sep 0 s = [s]"
| "py_split sep (Suc n) s =
     (case dropWhile (\<lambda>c. c \<noteq> sep) s of
        [] \<Rightarrow> [s]
      | _ # rest \<Rightarrow> takeWhile (\<lambda>c. c \<noteq> sep) s # py_split sep n rest)"

text \<open>\<^verbatim>\<open>sep.join(parts)\<close>.\<close>

fun py_join :: "string \<Rightarrow> string list \<Rightarrow> string" where
  "py_join sep [] = []"
| "py_join sep [p] = p"
| "py_join sep (p # q # ps) = p @ sep @ py_join sep (q # ps)"

text \<open>\<^verbatim>\<open>xs.insert(1, v)\<close>: before the second element, or at the end of a shorter list.\<close>

definition insert1 :: "'a \<Rightarrow> 'a list \<Rightarrow> 'a list" where
  "insert1 v xs = take 1 xs @ v # drop 1 xs"

text \<open>\<^verbatim>\<open>len(s)\<close>: the number of code points, that is of bytes that are not UTF-8
  continuation bytes.\<close>

definition is_cont :: "char \<Rightarrow> bool" where
  "is_cont c = (0x80 \<le> (of_char c :: nat) \<and> (of_char c :: nat) \<le> 0xBF)"

definition py_len :: "string \<Rightarrow> nat" where
  "py_len s = length (filter (\<lambda>c. \<not> is_cont c) s)"

text \<open>\<^verbatim>\<open>byte_line.decode("utf-8")\<close> in strict mode: well-formed UTF-8 (no overlong
  forms, no surrogates, nothing above U+10FFFF) or \<^verbatim>\<open>UnicodeDecodeError\<close>.\<close>

definition in_range :: "char \<Rightarrow> nat \<Rightarrow> nat \<Rightarrow> bool" where
  "in_range c lo hi = (lo \<le> of_char c \<and> (of_char c :: nat) \<le> hi)"

fun utf8_valid :: "string \<Rightarrow> bool" where
  "utf8_valid [] = True"
| "utf8_valid (a # bs) =
     (if in_range a 0x00 0x7F then utf8_valid bs
      else if in_range a 0xC2 0xDF then
        (case bs of
           b # r \<Rightarrow> is_cont b \<and> utf8_valid r
         | _ \<Rightarrow> False)
      else if in_range a 0xE0 0xEF then
        (case bs of
           b # c # r \<Rightarrow>
             in_range b (if in_range a 0xE0 0xE0 then 0xA0 else 0x80)
                        (if in_range a 0xED 0xED then 0x9F else 0xBF)
             \<and> is_cont c \<and> utf8_valid r
         | _ \<Rightarrow> False)
      else if in_range a 0xF0 0xF4 then
        (case bs of
           b # c # d # r \<Rightarrow>
             in_range b (if in_range a 0xF0 0xF0 then 0x90 else 0x80)
                        (if in_range a 0xF4 0xF4 then 0x8F else 0xBF)
             \<and> is_cont c \<and> is_cont d \<and> utf8_valid r
         | _ \<Rightarrow> False)
      else False)"

definition decode_utf8 :: "string \<Rightarrow> py_error + string" where
  "decode_utf8 bs = (if utf8_valid bs then Inr bs else Inl UnicodeDecodeError)"

text \<open>\<^verbatim>\<open>bytes.splitlines()\<close>: lines end at \<^verbatim>\<open>\n\<close>, \<^verbatim>\<open>\r\<close> or \<^verbatim>\<open>\r\n\<close>; the
  terminators are dropped and no empty line follows the last terminator. The first
  argument is the line read so far.\<close>

fun splitlines_from :: "string \<Rightarrow> string \<Rightarrow> string list" where
  "splitlines_from cur [] = (if cur = [] then [] else [cur])"
| "splitlines_from cur (c # cs) =
     (if c = CHR 0x0A then cur # splitlines_from [] cs
      else if c = CHR 0x0D then
        (case cs of
           d # ds \<Rightarrow>
             if d = CHR 0x0A then cur # splitlines_from [] ds
             else cur # splitlines_from [] cs
         | [] \<Rightarrow> cur # splitlines_from [] cs)
      else splitlines_from (cur @ [c]) cs)"

definition splitlines :: "string \<Rightarrow> string list" where
  "splitlines s = splitlines_from [] s"

text \<open>\<^verbatim>\<open>str(n)\<close> for an integer: decimal digits, a minus sign for a negative one.\<close>

fun digits :: "nat \<Rightarrow> string" where
  "digits n =
     (if n < 10 then [''0123456789'' ! n]
      else digits (n div 10) @ [''0123456789'' ! (n mod 10)])"

declare digits.simps [simp del]

definition py_str :: "int \<Rightarrow> string" where
  "py_str i = (if i < 0 then CHR ''-'' # digits (nat (- i)) else digits (nat i))"

text \<open>\<^verbatim>\<open>int(s)\<close> in base ten, on ASCII text: the blanks around the numeral are
  skipped (space, \<^verbatim>\<open>\t\<close>, \<^verbatim>\<open>\n\<close>, \<^verbatim>\<open>\v\<close>, \<^verbatim>\<open>\f\<close>, \<^verbatim>\<open>\r\<close> and no other
  character: \<^verbatim>\<open>int('\x1c3')\<close> raises), one sign is allowed, then decimal digits, single
  underscores allowed between digits (Python 3.6 and later). Anything else is
  \<^verbatim>\<open>ValueError\<close>. Python also reads the decimal digits and blanks of other scripts, and
  from 3.11 on refuses numerals of more than 4300 digits; on such text the model differs
  from \<^verbatim>\<open>int\<close>, and every theorem below that depends on a numeral being read names the
  value \<open>py_int\<close> returns.\<close>

definition is_space :: "char \<Rightarrow> bool" where
  "is_space c = (c \<in> set [CHR 0x20, CHR 0x09, CHR 0x0A, CHR 0x0B, CHR 0x0C, CHR 0x0D])"

definition strip :: "string \<Rightarrow> string" where
  "strip s = rev (dropWhile is_space (rev (dropWhile is_space s)))"

definition is_digit :: "char \<Rightarrow> bool" where
  "is_digit c = in_range c 0x30 0x39"

definition digit_val :: "char \<Rightarrow> nat" where
  "digit_val c = of_char c - 0x30"

text \<open>The value of a digit string read left to right from the accumulator; after an
  underscore a digit must follow.\<close>

fun read_digits :: "nat \<Rightarrow> string \<Rightarrow> nat option" where
  "read_digits acc [] = Some acc"
| "read_digits acc (c # cs) =
     (if is_digit c then read_digits (10 * acc + digit_val c) cs
      else if c = CHR ''_'' then
        (case cs of
           d # ds \<Rightarrow>
             if is_digit d then read_digits (10 * acc + digit_val d) ds else None
         | [] \<Rightarrow> None)
      else None)"

definition read_nat :: "string \<Rightarrow> nat option" where
  "read_nat s =
     (case s of
        [] \<Rightarrow> None
      | c # cs \<Rightarrow> if is_digit c then read_digits (digit_val c) cs else None)"

definition py_int :: "string \<Rightarrow> py_error + int" where
  "py_int s =
     (let t = strip s in
      case t of
        [] \<Rightarrow> Inl ValueError
      | c # cs \<Rightarrow>
          if c = CHR ''-'' then
            (case read_nat cs of None \<Rightarrow> Inl ValueError | Some n \<Rightarrow> Inr (- int n))
          else if c = CHR ''+'' then
            (case read_nat cs of None \<Rightarrow> Inl ValueError | Some n \<Rightarrow> Inr (int n))
          else
            (case read_nat t of None \<Rightarrow> Inl ValueError | Some n \<Rightarrow> Inr (int n)))"

subsection \<open>Parsed records\<close>

text \<open>\<^verbatim>\<open>class Result\<close>: one parsed \<^verbatim>\<open>MATCH\<close> line.\<close>

record result =
  completion :: string
  snippet :: string
  row :: int
  column :: int
  path :: string
  type :: string
  "context" :: string

text \<open>\<^verbatim>\<open>Result.__init__\<close>: the seven reads of \<open>parts\<close> in the order of the source, so
  that the first failing read decides the exception. Elements after the seventh are
  never read.\<close>

definition Result :: "string list \<Rightarrow> py_error + result" where
  "Result parts =
     bind (py_index parts 0) (\<lambda>p0.
     bind (py_index parts 1) (\<lambda>p1.
     bind (py_index parts 2) (\<lambda>p2.
     bind (py_int p2) (\<lambda>r.
     bind (py_index parts 3) (\<lambda>p3.
     bind (py_int p3) (\<lambda>c.
     bind (py_index parts 4) (\<lambda>p4.
     bind (py_index parts 5) (\<lambda>p5.
     bind (py_index parts 6) (\<lambda>p6.
       Inr \<lparr>completion = p0, snippet = p1, row = r, column = c,
            path = p4, type = p5, context = p6\<rparr>)))))))))"

subsection \<open>Parsing racer's output\<close>

definition match_string :: string where
  "match_string = ''MATCH ''"

text \<open>The body of the loop over the output lines (source lines 140 to 149): the line
  is decoded; a line with the prefix yields a record or raises, any other line yields
  nothing.\<close>

definition parse_line :: "bool \<Rightarrow> string \<Rightarrow> py_error + result option" where
  "parse_line with_snippet byte_line =
     bind (decode_utf8 byte_line) (\<lambda>line.
       if prefix match_string line then
         (let parts =
            (if with_snippet
             then py_split CHR '';'' 7 (drop (length match_string) line)
             else insert1 [] (py_split CHR '','' 6 (drop (length match_string) line)))
          in bind (Result parts) (\<lambda>result. Inr (Some result)))
       else Inr None)"

text \<open>The loop itself: records are appended in output order, the first exception ends
  it.\<close>

fun parse_lines :: "bool \<Rightarrow> result list \<Rightarrow> string list \<Rightarrow> py_error + result list" where
  "parse_lines with_snippet results [] = Inr results"
| "parse_lines with_snippet results (byte_line # rest) =
     bind (parse_line with_snippet byte_line) (\<lambda>r.
       parse_lines with_snippet
         (case r of None \<Rightarrow> results | Some result \<Rightarrow> results @ [result]) rest)"

subsection \<open>The editor, the settings and the host platform\<close>

text \<open>\<^verbatim>\<open>class Settings\<close>: the two values read from the package settings. The global
  \<^verbatim>\<open>settings\<close> is \<^verbatim>\<open>None\<close> until \<^verbatim>\<open>plugin_loaded\<close> has run, hence an option.\<close>

record settings =
  racer_bin :: string
  search_paths :: "string list"

text \<open>What the plugin reads from a Sublime Text view: its file name, the file names of
  the views of its window, the text of the whole buffer, the selections (pairs of
  offsets), and the editor's answers to \<^verbatim>\<open>match_selector\<close> and \<^verbatim>\<open>rowcol\<close>, both
  zero-based.\<close>

record view =
  file_name :: "string option"
  window_views :: "string option list"
  buffer :: string
  sel :: "(nat \<times> nat) list"
  match_selector :: "nat \<Rightarrow> string \<Rightarrow> bool"
  rowcol :: "nat \<Rightarrow> nat \<times> nat"

text \<open>What the plugin asks of the platform: \<^verbatim>\<open>os.name\<close>, \<^verbatim>\<open>sublime.platform()\<close>,
  \<^verbatim>\<open>os.environ\<close>, \<^verbatim>\<open>os.pathsep\<close>, the functions of \<^verbatim>\<open>os.path\<close>, and the child process:
  \<open>popen\<close> stands for \<^verbatim>\<open>Popen\<close>, \<^verbatim>\<open>communicate\<close> and \<^verbatim>\<open>wait\<close> together, taking
  the argument vector, the environment, whether a \<^verbatim>\<open>STARTUPINFO\<close> was passed and the
  bytes for standard input, and giving the exit code with the captured output and error
  bytes, or the exception raised by \<^verbatim>\<open>Popen\<close>. The last field is the Unicode database
  of the Python runtime as the \<^verbatim>\<open>re\<close> module consults it: whether a code point outside
  ASCII, given by its UTF-8 bytes, is alphanumeric.\<close>

record host =
  os_name :: string
  platform :: string
  environ :: "(string \<times> string) list"
  pathsep :: string
  expanduser :: "string \<Rightarrow> string"
  dirname :: "string \<Rightarrow> string"
  path_join :: "string \<Rightarrow> string \<Rightarrow> string"
  popen :: "string list \<Rightarrow> (string \<times> string) list \<Rightarrow> bool \<Rightarrow> string
            \<Rightarrow> py_error + (int \<times> string \<times> string)"
  unicode_alnum :: "string \<Rightarrow> bool"

text \<open>The arguments of a \<^verbatim>\<open>print\<close> call, and the effects of the plugin in the order
  they happen.\<close>

datatype printed = PStr string | PInt int | PBytes string

datatype flag = INHIBIT_WORD_COMPLETIONS | INHIBIT_EXPLICIT_COMPLETIONS | ENCODED_POSITION

datatype effect =
  Spawn "string list" "(string \<times> string) list" bool string
  | Print "printed list"
  | OpenFile string "flag list"

text \<open>The argument vectors of the processes started, and the files opened.\<close>

fun spawned :: "effect list \<Rightarrow> string list list" where
  "spawned [] = []"
| "spawned (Spawn argv env si inp # es) = argv # spawned es"
| "spawned (e # es) = spawned es"

fun opened :: "effect list \<Rightarrow> string list" where
  "opened [] = []"
| "opened (OpenFile p fl # es) = p # opened es"
| "opened (e # es) = opened es"

subsection \<open>The context path\<close>

definition expand_all :: "host \<Rightarrow> string list \<Rightarrow> string list" where
  "expand_all h paths = map (expanduser h) paths"

text \<open>The frequency dictionary, in insertion order (the order \<^verbatim>\<open>dirs.keys()\<close> has from
  Python 3.7 on).\<close>

fun count_dirs :: "(string \<times> nat) list \<Rightarrow> string list \<Rightarrow> (string \<times> nat) list" where
  "count_dirs dirs [] = dirs"
| "count_dirs dirs (item # items) =
     count_dirs
       (case map_of dirs item of
          None \<Rightarrow> dirs @ [(item, 1)]
        | Some n \<Rightarrow> map (\<lambda>(k, v). if k = item then (k, n + 1) else (k, v)) dirs)
       items"

text \<open>\<^verbatim>\<open>max(keys, key=f)\<close>: the first key with the largest value; \<^verbatim>\<open>ValueError\<close> on an
  empty sequence.\<close>

fun max_from :: "('a \<Rightarrow> nat) \<Rightarrow> 'a \<Rightarrow> 'a list \<Rightarrow> 'a" where
  "max_from f best [] = best"
| "max_from f best (k # ks) = max_from f (if f best < f k then k else best) ks"

definition py_max :: "('a \<Rightarrow> nat) \<Rightarrow> 'a list \<Rightarrow> py_error + 'a" where
  "py_max f keys = (case keys of [] \<Rightarrow> Inl ValueError | k # ks \<Rightarrow> Inr (max_from f k ks))"

definition determine_context_path :: "host \<Rightarrow> view \<Rightarrow> py_error + string" where
  "determine_context_path h view =
     (case file_name view of
        Some name \<Rightarrow> Inr name
      | None \<Rightarrow>
          (let paths = [name. Some name \<leftarrow> window_views view];
               paths = filter (\<lambda>path. drop (length path - 3) path = ''.rs'') paths;
               directories =
                 map (\<lambda>path. path_join h (dirname h path) ''_transient.rs'') paths
           in if length directories = 0 then Inr ''-''
              else
                (let dirs = count_dirs [] directories
                 in py_max (\<lambda>key. case map_of dirs key of Some n \<Rightarrow> n | None \<Rightarrow> 0)
                      (map fst dirs))))"

subsection \<open>Running racer\<close>

text \<open>The environment of the child: the configured search paths, expanded, then the
  inherited \<^verbatim>\<open>RUST_SRC_PATH\<close> if there is one, joined by \<^verbatim>\<open>os.pathsep\<close>.\<close>

definition racer_env :: "host \<Rightarrow> settings \<Rightarrow> (string \<times> string) list" where
  "racer_env h s =
     (let env = environ h;
          expanded_search_paths = expand_all h (search_paths s);
          expanded_search_paths =
            (case map_of env ''RUST_SRC_PATH'' of
               Some v \<Rightarrow> expanded_search_paths @ [v]
             | None \<Rightarrow> expanded_search_paths)
      in AList.update ''RUST_SRC_PATH'' (py_join (pathsep h) expanded_search_paths) env)"

text \<open>\<^verbatim>\<open>run_racer\<close>. The statements are taken in the order of the source: reading
  \<^verbatim>\<open>cmd_list[0]\<close>, reading the global settings, resolving the context path, building
  the environment, running the process, then parsing the output or printing the failure.\<close>

definition run_racer ::
  "host \<Rightarrow> settings option \<Rightarrow> view \<Rightarrow> string list \<Rightarrow> (py_error + result list) \<times> effect list"
where
  "run_racer h st view cmd_list =
     (let content = buffer view in
      case py_index cmd_list 0 of
        Inl e \<Rightarrow> (Inl e, [])
      | Inr c0 \<Rightarrow>
      (let with_snippet = (c0 = ''complete-with-snippet'') in
       case st of
         None \<Rightarrow> (Inl AttributeError, [])
       | Some s \<Rightarrow>
       (let cmd_list = racer_bin s # cmd_list in
        case determine_context_path h view of
          Inl e \<Rightarrow> (Inl e, [])
        | Inr context_path \<Rightarrow>
        (let cmd_list = cmd_list @ [context_path];
             cmd_list = cmd_list @ [''-''];
             env = racer_env h s;
             startupinfo = (os_name h = ''nt'');
             started = Spawn cmd_list env startupinfo content
         in case popen h cmd_list env startupinfo content of
              Inl e \<Rightarrow> (Inl e, [started])
            | Inr (exit_code, output, err) \<Rightarrow>
                if exit_code = 0
                then (parse_lines with_snippet [] (splitlines output), [started])
                else (Inr [],
                      [started,
                       Print [PStr (''CMD: '' @ [CHR 0x27] @ py_join '' '' cmd_list
                                    @ [CHR 0x27] @ '' failed: exit_code:''),
                              PInt exit_code, PBytes output, PBytes err]])))))"

subsection \<open>Completions\<close>

text \<open>The sort key of \<^verbatim>\<open>on_query_completions\<close>: the rank of a record's type in the
  dictionary, 100 for a type that is not a key.\<close>

definition cmp :: "result \<Rightarrow> nat" where
  "cmp raw_result =
     (case map_of [(''Module'', 0), (''Function'', 1), (''Struct'', 2),
                   (''Trait'', 3), (''Type'', 4), (''Enum'', 5)] (type raw_result) of
        Some rank \<Rightarrow> rank
      | None \<Rightarrow> 100)"

text \<open>\<^verbatim>\<open>sorted(xs, key=f)\<close>: Python's sort is stable; insertion by key is the stable
  sort.\<close>

definition py_sorted :: "('a \<Rightarrow> nat) \<Rightarrow> 'a list \<Rightarrow> 'a list" where
  "py_sorted f xs = sort_key f xs"

text \<open>The format field \<^verbatim>\<open>{:>{width}}\<close> on a string: spaces on the left up to the
  width, nothing cut off.\<close>

definition py_rjust :: "nat \<Rightarrow> string \<Rightarrow> string" where
  "py_rjust width s = replicate (width - py_len s) CHR '' '' @ s"

definition lalign_of :: "result list \<Rightarrow> nat" where
  "lalign_of raw_results =
     fold (\<lambda>result lalign.
             max lalign (py_len (completion result) + py_len (type result)))
       raw_results 0"

text \<open>One display line. The width \<open>lalign - len(completion)\<close> is never negative, as
  \<open>lalign\<close> is a maximum over all records.\<close>

definition display_line :: "nat \<Rightarrow> result \<Rightarrow> string" where
  "display_line lalign result =
     (let ctx = (if type result \<noteq> ''Module'' then '' : '' @ context result else [])
      in completion result @ ''   ''
         @ py_rjust (lalign - py_len (completion result)) (type result) @ ctx)"

definition format_results :: "result list \<Rightarrow> (string \<times> string) list" where
  "format_results raw_results =
     (let lalign = lalign_of raw_results;
          results = map (\<lambda>result. (display_line lalign result, snippet result)) raw_results;
          longest = fold (\<lambda>(completion, snip) longest. max longest (py_len completion))
                      results 0
      in case results of
           [] \<Rightarrow> []
         | (first, snip) # others \<Rightarrow>
             (first @ replicate (longest - py_len first - 2) CHR '' '', snip) # others)"

text \<open>\<^verbatim>\<open>RustAutocomplete.on_query_completions\<close>. \<^verbatim>\<open>None\<close> is returned when the view
  is not Rust, when racer is not found, and when there is no completion. Only
  \<^verbatim>\<open>FileNotFoundError\<close> is caught.\<close>

definition on_query_completions ::
  "host \<Rightarrow> settings option \<Rightarrow> view \<Rightarrow> string \<Rightarrow> nat list
   \<Rightarrow> (py_error + ((string \<times> string) list \<times> flag list) option) \<times> effect list"
where
  "on_query_completions h st view pfx locations =
     (case py_index locations 0 of
        Inl e \<Rightarrow> (Inl e, [])
      | Inr loc \<Rightarrow>
          if match_selector view loc ''source.rust'' then
            (let (row, col) = rowcol view loc;
                 row = row + 1
             in case run_racer h st view
                       [''complete-with-snippet'', py_str (int row), py_str (int col)] of
                  (Inl e, es) \<Rightarrow>
                    if e = FileNotFoundError
                    then (Inr None,
                          es @ [Print [PStr ''Unable to find racer executable (check settings)'']])
                    else (Inl e, es)
                | (Inr raw_results, es) \<Rightarrow>
                    (let raw_results = py_sorted cmp raw_results;
                         results = format_results raw_results
                     in if length results > 0
                        then (Inr (Some (results,
                                [INHIBIT_WORD_COMPLETIONS, INHIBIT_EXPLICIT_COMPLETIONS])), es)
                        else (Inr None, es)))
          else (Inr None, []))"

subsection \<open>Go to definition\<close>

text \<open>The regular expression \<^verbatim>\<open>^\w\:\<close> matched at the start of the path: one word
  character, then a colon. The pattern is a \<^verbatim>\<open>str\<close>, so \<^verbatim>\<open>\w\<close> is the Unicode class: on
  ASCII a letter, a digit or the underscore, elsewhere any alphanumeric code point. The
  first code point of a text is its first byte with the continuation bytes that follow.\<close>

definition first_char :: "string \<Rightarrow> string" where
  "first_char p = (case p of [] \<Rightarrow> [] | c # rest \<Rightarrow> c # takeWhile is_cont rest)"

definition is_word_char :: "host \<Rightarrow> string \<Rightarrow> bool" where
  "is_word_char h cp =
     (case cp of
        [c] \<Rightarrow>
          if in_range c 0x00 0x7F
          then in_range c 0x61 0x7A \<or> in_range c 0x41 0x5A \<or> in_range c 0x30 0x39
               \<or> c = CHR ''_''
          else unicode_alnum h cp
      | _ \<Rightarrow> unicode_alnum h cp)"

definition has_drive :: "host \<Rightarrow> string \<Rightarrow> bool" where
  "has_drive h p =
     (p \<noteq> [] \<and> is_word_char h (first_char p)
      \<and> (case drop (length (first_char p)) p of
            d # rest \<Rightarrow> d = CHR '':''
          | [] \<Rightarrow> False))"

definition normalize_path :: "host \<Rightarrow> string \<Rightarrow> string" where
  "normalize_path h p =
     (if platform h = ''windows'' \<and> \<not> has_drive h p then ''c:'' @ p else p)"

definition encoded_path :: "host \<Rightarrow> result \<Rightarrow> string" where
  "encoded_path h result =
     normalize_path h (path result) @ '':'' @ py_str (row result)
       @ '':'' @ py_str (column result)"

text \<open>\<^verbatim>\<open>RustGotoDefinitionCommand.run\<close>. No exception is caught here.\<close>

definition RustGotoDefinitionCommand_run ::
  "host \<Rightarrow> settings option \<Rightarrow> view \<Rightarrow> (py_error + unit) \<times> effect list"
where
  "RustGotoDefinitionCommand_run h st view =
     (case py_index (sel view) 0 of
        Inl e \<Rightarrow> (Inl e, [])
      | Inr (a, b) \<Rightarrow>
          (let (row, col) = rowcol view (min a b);
               row = row + 1
           in case run_racer h st view
                     [''find-definition'', py_str (int row), py_str (int col)] of
                (Inl e, es) \<Rightarrow> (Inl e, es)
              | (Inr results, es) \<Rightarrow>
                  if length results = 1
                  then (Inr (), es @ [OpenFile (encoded_path h (results ! 0)) [ENCODED_POSITION]])
                  else (Inr (), es)))"

subsection \<open>The line a record stands for\<close>

text \<open>The specification speaks of rebuilding a \<^verbatim>\<open>MATCH\<close> line from a record; the
  plugin has no such function. This one follows the specification's words: the prefix,
  then the seven fields in order with \<^verbatim>\<open>;\<close> between them, row and column in decimal.\<close>

definition spec_reconstruct :: "result \<Rightarrow> string" where
  "spec_reconstruct r =
     match_string @ py_join '';''
       [completion r, snippet r, py_str (row r), py_str (column r),
        path r, type r, context r]"


subsection \<open>An example platform\<close>

text \<open>A POSIX machine and a Windows machine whose child process has a fixed outcome,
  the settings of a default installation, and a saved one-line Rust buffer with the
  cursor at offset 3. They give the general theorems below concrete instances. Of the
  Unicode database the examples hold one entry, the letter U+00E9.\<close>

definition example_host :: "py_error + (int \<times> string \<times> string) \<Rightarrow> host" where
  "example_host outcome =
     \<lparr>os_name = ''posix'', platform = ''linux'',
      environ = [(''HOME'', ''/home/u'')], pathsep = '':'',
      expanduser = (\<lambda>p. p),
      dirname = (\<lambda>p. rev (drop 1 (dropWhile (\<lambda>c. c \<noteq> CHR ''/'') (rev p)))),
      path_join = (\<lambda>a b. a @ ''/'' @ b),
      popen = (\<lambda>argv env startupinfo inp. outcome),
      unicode_alnum = (\<lambda>cp. cp = [CHR 0xC3, CHR 0xA9])\<rparr>"

definition example_windows_host :: "py_error + (int \<times> string \<times> string) \<Rightarrow> host" where
  "example_windows_host outcome =
     (example_host outcome)\<lparr>os_name := ''nt'', platform := ''windows'', pathsep := '';''\<rparr>"

definition example_settings :: settings where
  "example_settings = \<lparr>racer_bin = ''racer'', search_paths = [''/usr/src/rust'']\<rparr>"

definition example_view :: view where
  "example_view =
     \<lparr>file_name = Some ''/proj/src/main.rs'',
      window_views = [Some ''/proj/src/main.rs''],
      buffer = ''fn main() {}'',
      sel = [(3, 3)],
      match_selector = (\<lambda>pt selector. selector = ''source.rust''),
      rowcol = (\<lambda>pt. (0, pt))\<rparr>"

section \<open>Properties\<close>

subsection \<open>Splitting and joining\<close>

lemma dropWhile_no_sep: "sep \<notin> set f \<Longrightarrow> dropWhile (\<lambda>c. c \<noteq> sep) f = []"
  by (induction f) auto

lemma py_split_none: "sep \<notin> set f \<Longrightarrow> py_split sep n f = [f]"
  by (cases n) (simp_all add: dropWhile_no_sep)

lemma takeWhile_sep: "sep \<notin> set f \<Longrightarrow> takeWhile (\<lambda>c. c \<noteq> sep) (f @ sep # rest) = f"
  by (induction f) auto

lemma dropWhile_sep:
  "sep \<notin> set f \<Longrightarrow> dropWhile (\<lambda>c. c \<noteq> sep) (f @ sep # rest) = sep # rest"
  by (induction f) auto

lemma py_split_cut:
  "sep \<notin> set f \<Longrightarrow> py_split sep (Suc n) (f @ sep # rest) = f # py_split sep n rest"
  by (simp add: takeWhile_sep dropWhile_sep)

lemma py_join_Cons: "fs \<noteq> [] \<Longrightarrow> py_join sep (f # fs) = f @ sep @ py_join sep fs"
  by (cases fs) simp_all

text \<open>Splitting undoes joining when no field holds the separator and the fields are
  no more than the split allows.\<close>

lemma py_split_join:
  "\<forall>f \<in> set fs. sep \<notin> set f \<Longrightarrow> fs \<noteq> [] \<Longrightarrow> length fs \<le> Suc n
   \<Longrightarrow> py_split sep n (py_join [sep] fs) = fs"
proof (induction fs arbitrary: n)
  case Nil
  then show ?case by simp
next
  case (Cons f fs)
  show ?case
  proof (cases "fs = []")
    case True
    with Cons.prems show ?thesis by (simp add: py_split_none)
  next
    case False
    with Cons.prems obtain m where n: "n = Suc m" by (cases n) auto
    have "py_split sep m (py_join [sep] fs) = fs"
      using Cons.IH [of m] Cons.prems False n by simp
    with Cons.prems False n show ?thesis
      by (simp add: py_join_Cons py_split_cut del: py_split.simps)
  qed
qed

text \<open>With text after a further separator, the split goes on in that text with the
  cuts that are left.\<close>

lemma py_split_join_rest:
  "\<forall>f \<in> set fs. sep \<notin> set f \<Longrightarrow> fs \<noteq> [] \<Longrightarrow> length fs \<le> n
   \<Longrightarrow> py_split sep n (py_join [sep] fs @ sep # rest)
       = fs @ py_split sep (n - length fs) rest"
proof (induction fs arbitrary: n)
  case Nil
  then show ?case by simp
next
  case (Cons f fs)
  from Cons.prems obtain m where n: "n = Suc m" by (cases n) auto
  show ?case
  proof (cases "fs = []")
    case True
    with Cons.prems n show ?thesis by (simp add: py_split_cut del: py_split.simps)
  next
    case False
    have "py_split sep m (py_join [sep] fs @ sep # rest)
            = fs @ py_split sep (m - length fs) rest"
      using Cons.IH [of m] Cons.prems False n by simp
    with Cons.prems False n show ?thesis
      by (simp add: py_join_Cons py_split_cut del: py_split.simps)
  qed
qed

subsection \<open>Numerals\<close>

lemma digit_char:
  "k < 10 \<Longrightarrow> is_digit (''0123456789'' ! k) \<and> digit_val (''0123456789'' ! k) = k"
proof -
  assume "k < 10"
  then consider "k = 0" | "k = 1" | "k = 2" | "k = 3" | "k = 4" | "k = 5" | "k = 6" | "k = 7"
    | "k = 8" | "k = 9" by atomize_elim arith
  then show ?thesis
    by cases (simp_all add: is_digit_def digit_val_def in_range_def)
qed

lemma digits_all: "\<forall>c \<in> set (digits n). is_digit c"
proof (induction n rule: digits.induct)
  case (1 n)
  show ?case
  proof (cases "n < 10")
    case True
    then show ?thesis by (subst digits.simps) (simp add: digit_char)
  next
    case False
    with 1 show ?thesis by (subst digits.simps) (simp add: digit_char)
  qed
qed

lemma digits_nonempty: "digits n \<noteq> []"
  by (subst digits.simps) simp

lemma read_digits_all:
  "\<forall>c \<in> set s. is_digit c \<Longrightarrow>
   read_digits acc s = Some (foldl (\<lambda>a c. 10 * a + digit_val c) acc s)"
  by (induction s arbitrary: acc) simp_all

lemma foldl_digits: "foldl (\<lambda>a c. 10 * a + digit_val c) 0 (digits n) = n"
proof (induction n rule: digits.induct)
  case (1 n)
  show ?case
  proof (cases "n < 10")
    case True
    then show ?thesis by (subst digits.simps) (simp add: digit_char)
  next
    case False
    with 1 show ?thesis by (subst digits.simps) (simp add: digit_char)
  qed
qed

lemma read_nat_digits: "read_nat (digits n) = Some n"
proof -
  obtain c cs where s: "digits n = c # cs"
    using digits_nonempty [of n] by (cases "digits n") auto
  have d: "\<forall>c \<in> set (c # cs). is_digit c" using digits_all [of n] s by simp
  have "read_nat (c # cs) = read_digits 0 (c # cs)" using d by (simp add: read_nat_def)
  also have "\<dots> = Some (foldl (\<lambda>a c. 10 * a + digit_val c) 0 (c # cs))"
    using d by (rule read_digits_all)
  finally show ?thesis using foldl_digits [of n] s by simp
qed

lemma is_digit_not_space: "is_digit c \<Longrightarrow> \<not> is_space c"
  by (auto simp: is_digit_def is_space_def in_range_def)

lemma dropWhile_hd: "xs \<noteq> [] \<Longrightarrow> \<not> P (hd xs) \<Longrightarrow> dropWhile P xs = xs"
  by (cases xs) auto

lemma strip_id:
  assumes "s \<noteq> []" "\<not> is_space (hd s)" "\<not> is_space (last s)"
  shows "strip s = s"
proof -
  have "dropWhile is_space s = s" using assms by (simp add: dropWhile_hd)
  moreover have "dropWhile is_space (rev s) = rev s"
    using assms by (intro dropWhile_hd) (simp_all add: hd_rev)
  ultimately show ?thesis by (simp add: strip_def)
qed

lemma strip_digits: "strip (digits n) = digits n"
proof -
  have "hd (digits n) \<in> set (digits n)" "last (digits n) \<in> set (digits n)"
    using digits_nonempty by simp_all
  then show ?thesis
    using digits_all [of n] digits_nonempty [of n]
    by (intro strip_id) (auto dest: is_digit_not_space)
qed

lemma strip_minus_digits: "strip (CHR ''-'' # digits n) = CHR ''-'' # digits n"
proof -
  have "last (digits n) \<in> set (digits n)" using digits_nonempty by simp
  then have "\<not> is_space (last (digits n))"
    using digits_all [of n] is_digit_not_space by blast
  then show ?thesis
    using digits_nonempty [of n] by (intro strip_id) (simp_all add: is_space_def)
qed

text \<open>Reading what \<^verbatim>\<open>str\<close> printed gives the number back.\<close>

lemma py_int_py_str: "py_int (py_str i) = Inr i"
proof (cases "i < 0")
  case True
  then show ?thesis
    by (simp add: py_int_def py_str_def strip_minus_digits read_nat_digits)
next
  case False
  obtain c cs where s: "digits (nat i) = c # cs"
    using digits_nonempty [of "nat i"] by (cases "digits (nat i)") auto
  then have "is_digit c" using digits_all [of "nat i"] by simp
  then have "c \<noteq> CHR ''-''" "c \<noteq> CHR ''+''" by (auto simp: is_digit_def in_range_def)
  moreover have "read_nat (c # cs) = Some (nat i)"
    using read_nat_digits [of "nat i"] s by simp
  moreover have "strip (c # cs) = c # cs" using strip_digits [of "nat i"] s by simp
  ultimately show ?thesis using False s
    by (simp add: py_int_def py_str_def)
qed

text \<open>Only the six ASCII blanks are skipped around a numeral.\<close>

lemma py_int_blanks:
  "py_int ('' 3'' @ [CHR 0x09, CHR 0x0A]) = Inr 3
   \<and> py_int [CHR 0x1C, CHR ''3''] = Inl ValueError
   \<and> py_int [CHR ''3'', CHR 0x1F] = Inl ValueError"
  by code_simp

lemma py_str_no_sep: "\<not> is_digit sep \<Longrightarrow> sep \<noteq> CHR ''-'' \<Longrightarrow> sep \<notin> set (py_str i)"
  using digits_all by (auto simp: py_str_def)

subsection \<open>Records from lines\<close>

lemma Result_seven:
  "py_int rt = Inr r \<Longrightarrow> py_int ct = Inr cl \<Longrightarrow>
   Result (c # s # rt # ct # p # k # x # others) =
     Inr \<lparr>completion = c, snippet = s, row = r, column = cl,
          path = p, type = k, context = x\<rparr>"
  by (simp add: Result_def bind_def py_index_def)

text \<open>Fewer than seven parts never make a record.\<close>

lemma Result_short: "length parts < 7 \<Longrightarrow> \<exists>e. Result parts = Inl e"
  by (auto simp: Result_def bind_def py_index_def split: sum.splits)

lemma parse_line_match:
  "utf8_valid (match_string @ rest) \<Longrightarrow>
   parse_line w (match_string @ rest) =
     bind (Result (if w then py_split CHR '';'' 7 rest
                   else insert1 [] (py_split CHR '','' 6 rest)))
       (\<lambda>result. Inr (Some result))"
  by (simp add: parse_line_def decode_utf8_def bind_def)

text \<open>
  Claim C2. A \<^verbatim>\<open>MATCH\<close> line of seven fields separated by \<^verbatim>\<open>;\<close>, read under
  \<^verbatim>\<open>complete-with-snippet\<close>, gives the record whose completion, snippet, row, column,
  path, type and context are those fields in order, row and column as the integers the
  fields denote. When row and column are written as \<^verbatim>\<open>str\<close> writes them, rebuilding the
  line from the record gives the line back.
\<close>

theorem match_line_roundtrip:
  assumes "\<forall>f \<in> set [c, s, rt, ct, p, k, x]. CHR '';'' \<notin> set f"
    and "line = match_string @ py_join '';'' [c, s, rt, ct, p, k, x]"
    and "utf8_valid line"
    and "py_int rt = Inr r" and "py_int ct = Inr cl"
  shows "parse_line True line =
           Inr (Some \<lparr>completion = c, snippet = s, row = r, column = cl,
                      path = p, type = k, context = x\<rparr>)
         \<and> (rt = py_str r \<and> ct = py_str cl \<longrightarrow>
            spec_reconstruct \<lparr>completion = c, snippet = s, row = r, column = cl,
                               path = p, type = k, context = x\<rparr> = line)"
proof -
  have "py_split CHR '';'' 7 (py_join [CHR '';''] [c, s, rt, ct, p, k, x])
          = [c, s, rt, ct, p, k, x]"
    using assms(1) by (intro py_split_join) simp_all
  then have "parse_line True line =
           Inr (Some \<lparr>completion = c, snippet = s, row = r, column = cl,
                      path = p, type = k, context = x\<rparr>)"
    using assms(2-5) by (simp add: parse_line_match Result_seven bind_def)
  moreover have "rt = py_str r \<and> ct = py_str cl \<longrightarrow>
            spec_reconstruct \<lparr>completion = c, snippet = s, row = r, column = cl,
                               path = p, type = k, context = x\<rparr> = line"
    using assms(2) by (simp add: spec_reconstruct_def)
  ultimately show ?thesis by simp
qed

theorem match_line_roundtrip_witness:
  "parse_line True ''MATCH foo;foo_snip;3;10;/tmp/x.rs;Function;fn foo()'' =
     Inr (Some \<lparr>completion = ''foo'', snippet = ''foo_snip'', row = 3, column = 10,
                path = ''/tmp/x.rs'', type = ''Function'', context = ''fn foo()''\<rparr>)
   \<and> spec_reconstruct \<lparr>completion = ''foo'', snippet = ''foo_snip'', row = 3, column = 10,
                path = ''/tmp/x.rs'', type = ''Function'', context = ''fn foo()''\<rparr>
     = ''MATCH foo;foo_snip;3;10;/tmp/x.rs;Function;fn foo()''"
proof -
  have h1: "\<forall>f \<in> set [''foo'', ''foo_snip'', ''3'', ''10'', ''/tmp/x.rs'', ''Function'',
                        ''fn foo()'']. CHR '';'' \<notin> set f" by simp
  have h2: "''MATCH foo;foo_snip;3;10;/tmp/x.rs;Function;fn foo()'' =
              match_string @ py_join '';'' [''foo'', ''foo_snip'', ''3'', ''10'', ''/tmp/x.rs'',
                                           ''Function'', ''fn foo()'']"
    by (simp add: match_string_def)
  have h3: "utf8_valid ''MATCH foo;foo_snip;3;10;/tmp/x.rs;Function;fn foo()''" by code_simp
  have h4: "py_int ''3'' = Inr 3" by code_simp
  have h5: "py_int ''10'' = Inr 10" by code_simp
  have s1: "''3'' = py_str 3" by code_simp
  have s2: "''10'' = py_str 10" by code_simp
  show ?thesis
    using match_line_roundtrip [OF h1 h2 h3 h4 h5] s1 s2 by blast
qed

text \<open>The other way round: a record whose text fields are free of \<^verbatim>\<open>;\<close> is read back
  from the line rebuilt from it, so the lines of the theorem above are exactly the
  rebuilt ones.\<close>

lemma parse_spec_reconstruct:
  assumes "\<forall>f \<in> set [completion r, snippet r, path r, type r, context r]. CHR '';'' \<notin> set f"
    and "utf8_valid (spec_reconstruct r)"
  shows "parse_line True (spec_reconstruct r) = Inr (Some r)"
proof -
  have n: "CHR '';'' \<notin> set (py_str (row r))" "CHR '';'' \<notin> set (py_str (column r))"
    by (rule py_str_no_sep; simp add: is_digit_def in_range_def)+
  have "py_split CHR '';'' 7 (py_join [CHR '';'']
          [completion r, snippet r, py_str (row r), py_str (column r), path r, type r, context r])
        = [completion r, snippet r, py_str (row r), py_str (column r), path r, type r, context r]"
    using assms(1) n by (intro py_split_join) simp_all
  then show ?thesis
    using assms(2)
    by (simp add: spec_reconstruct_def parse_line_match Result_seven py_int_py_str bind_def)
qed

text \<open>
  Claim C10. A \<^verbatim>\<open>complete-with-snippet\<close> line with more than seven fields still gives a
  record: it is built from the first seven fields, the context is the seventh field,
  ending at the seventh \<^verbatim>\<open>;\<close>, and whatever follows that separator is dropped.
\<close>

theorem extra_fields_discarded:
  assumes "\<forall>f \<in> set [c, s, rt, ct, p, k, x]. CHR '';'' \<notin> set f"
    and "line = match_string @ py_join '';'' [c, s, rt, ct, p, k, x] @ '';'' @ extra"
    and "utf8_valid line"
    and "py_int rt = Inr r" and "py_int ct = Inr cl"
  shows "parse_line True line =
           Inr (Some \<lparr>completion = c, snippet = s, row = r, column = cl,
                      path = p, type = k, context = x\<rparr>)"
proof -
  have "py_split CHR '';'' 7 (py_join [CHR '';''] [c, s, rt, ct, p, k, x] @ CHR '';'' # extra)
          = [c, s, rt, ct, p, k, x]
            @ py_split CHR '';'' (7 - length [c, s, rt, ct, p, k, x]) extra"
    using assms(1) by (intro py_split_join_rest) simp_all
  then have "py_split CHR '';'' 7
               (py_join [CHR '';''] [c, s, rt, ct, p, k, x] @ CHR '';'' # extra)
          = [c, s, rt, ct, p, k, x, extra]" by simp
  then show ?thesis
    using assms(2-5)
      parse_line_match [of "py_join '';'' [c, s, rt, ct, p, k, x] @ '';'' @ extra" True]
    by (simp add: Result_seven bind_def)
qed

theorem extra_fields_discarded_witness:
  "parse_line True ''MATCH foo;foo_snip;3;10;/tmp/x.rs;Function;fn foo();more;junk'' =
     Inr (Some \<lparr>completion = ''foo'', snippet = ''foo_snip'', row = 3, column = 10,
                path = ''/tmp/x.rs'', type = ''Function'', context = ''fn foo()''\<rparr>)"
proof -
  have h1: "\<forall>f \<in> set [''foo'', ''foo_snip'', ''3'', ''10'', ''/tmp/x.rs'', ''Function'',
                        ''fn foo()'']. CHR '';'' \<notin> set f" by simp
  have h2: "''MATCH foo;foo_snip;3;10;/tmp/x.rs;Function;fn foo();more;junk'' =
              match_string @ py_join '';'' [''foo'', ''foo_snip'', ''3'', ''10'', ''/tmp/x.rs'',
                                           ''Function'', ''fn foo()''] @ '';'' @ ''more;junk''"
    by (simp add: match_string_def)
  have h3: "utf8_valid ''MATCH foo;foo_snip;3;10;/tmp/x.rs;Function;fn foo();more;junk''"
    by code_simp
  have h4: "py_int ''3'' = Inr 3" by code_simp
  have h5: "py_int ''10'' = Inr 10" by code_simp
  show ?thesis
    using extra_fields_discarded [OF h1 h2 h3 h4 h5] by simp
qed

text \<open>A \<^verbatim>\<open>MATCH\<close> line of six fields separated by \<^verbatim>\<open>,\<close> and free of it, read under
  \<^verbatim>\<open>find-definition\<close>, gives the record (completion, empty snippet, row, column, path,
  type, context): the empty string is put in as second field. It is the record the
  \<^verbatim>\<open>;\<close> form gives for the same fields with an empty snippet.\<close>

lemma definition_line_six_fields:
  assumes "\<forall>f \<in> set [c, rt, ct, p, k, x]. CHR '','' \<notin> set f"
    and "line = match_string @ py_join '','' [c, rt, ct, p, k, x]"
    and "utf8_valid line"
    and "py_int rt = Inr r" and "py_int ct = Inr cl"
  shows "parse_line False line =
           Inr (Some \<lparr>completion = c, snippet = [], row = r, column = cl,
                      path = p, type = k, context = x\<rparr>)
         \<and> ((\<forall>f \<in> set [c, rt, ct, p, k, x]. CHR '';'' \<notin> set f)
              \<and> utf8_valid (match_string @ py_join '';'' [c, [], rt, ct, p, k, x]) \<longrightarrow>
            parse_line True (match_string @ py_join '';'' [c, [], rt, ct, p, k, x])
              = parse_line False line)"
proof -
  have "py_split CHR '','' 6 (py_join [CHR '',''] [c, rt, ct, p, k, x]) = [c, rt, ct, p, k, x]"
    using assms(1) by (intro py_split_join) simp_all
  then have 1: "parse_line False line =
           Inr (Some \<lparr>completion = c, snippet = [], row = r, column = cl,
                      path = p, type = k, context = x\<rparr>)"
    using assms(2-5) by (simp add: parse_line_match insert1_def Result_seven bind_def)
  have 2: "parse_line True (match_string @ py_join '';'' [c, [], rt, ct, p, k, x])
              = parse_line False line"
    if a: "\<forall>f \<in> set [c, rt, ct, p, k, x]. CHR '';'' \<notin> set f"
      and v: "utf8_valid (match_string @ py_join '';'' [c, [], rt, ct, p, k, x])"
  proof -
    have "py_split CHR '';'' 7 (py_join [CHR '';''] [c, [], rt, ct, p, k, x])
            = [c, [], rt, ct, p, k, x]"
      using a by (intro py_split_join) simp_all
    then show ?thesis
      using v assms(4,5) 1 by (simp add: parse_line_match Result_seven bind_def)
  qed
  from 1 2 show ?thesis by blast
qed

lemma definition_line_six_fields_example:
  "parse_line False ''MATCH lib,5,2,/proj/src/lib.rs,Module,/proj/src/lib.rs'' =
     Inr (Some \<lparr>completion = ''lib'', snippet = [], row = 5, column = 2,
                path = ''/proj/src/lib.rs'', type = ''Module'',
                context = ''/proj/src/lib.rs''\<rparr>)
   \<and> parse_line True ''MATCH lib;;5;2;/proj/src/lib.rs;Module;/proj/src/lib.rs''
       = parse_line False ''MATCH lib,5,2,/proj/src/lib.rs,Module,/proj/src/lib.rs''"
proof -
  have h1: "\<forall>f \<in> set [''lib'', ''5'', ''2'', ''/proj/src/lib.rs'', ''Module'',
                        ''/proj/src/lib.rs'']. CHR '','' \<notin> set f" by simp
  have h2: "''MATCH lib,5,2,/proj/src/lib.rs,Module,/proj/src/lib.rs'' =
              match_string @ py_join '','' [''lib'', ''5'', ''2'', ''/proj/src/lib.rs'',
                                           ''Module'', ''/proj/src/lib.rs'']"
    by (simp add: match_string_def)
  have h3: "utf8_valid ''MATCH lib,5,2,/proj/src/lib.rs,Module,/proj/src/lib.rs''"
    by code_simp
  have h4: "py_int ''5'' = Inr 5" by code_simp
  have h5: "py_int ''2'' = Inr 2" by code_simp
  have a1: "\<forall>f \<in> set [''lib'', ''5'', ''2'', ''/proj/src/lib.rs'', ''Module'',
                        ''/proj/src/lib.rs'']. CHR '';'' \<notin> set f" by simp
  have a2: "utf8_valid (match_string @ py_join '';'' [''lib'', [], ''5'', ''2'',
                          ''/proj/src/lib.rs'', ''Module'', ''/proj/src/lib.rs''])"
    by code_simp
  have e: "match_string @ py_join '';'' [''lib'', [], ''5'', ''2'',
                          ''/proj/src/lib.rs'', ''Module'', ''/proj/src/lib.rs'']
           = ''MATCH lib;;5;2;/proj/src/lib.rs;Module;/proj/src/lib.rs''"
    by (simp add: match_string_def)
  show ?thesis
    using definition_line_six_fields [OF h1 h2 h3 h4 h5] a1 a2 unfolding e by blast
qed

text \<open>When the text after the fifth comma holds a comma itself, as the signature of a
  function with two parameters does, the split is made with six cuts: the context of
  the record stops at that comma and the rest is left in a part that is never read.\<close>

lemma definition_context_cut:
  assumes "\<forall>f \<in> set [c, rt, ct, p, k, x]. CHR '','' \<notin> set f"
    and "line = match_string @ py_join '','' [c, rt, ct, p, k, x] @ '','' @ extra"
    and "utf8_valid line"
    and "py_int rt = Inr r" and "py_int ct = Inr cl"
  shows "parse_line False line =
           Inr (Some \<lparr>completion = c, snippet = [], row = r, column = cl,
                      path = p, type = k, context = x\<rparr>)"
proof -
  have "py_split CHR '','' 6 (py_join [CHR '',''] [c, rt, ct, p, k, x] @ CHR '','' # extra)
          = [c, rt, ct, p, k, x] @ py_split CHR '','' (6 - length [c, rt, ct, p, k, x]) extra"
    using assms(1) by (intro py_split_join_rest) simp_all
  then have "py_split CHR '','' 6 (py_join [CHR '',''] [c, rt, ct, p, k, x] @ CHR '','' # extra)
          = [c, rt, ct, p, k, x, extra]" by simp
  then show ?thesis
    using assms(2-5)
      parse_line_match [of "py_join '','' [c, rt, ct, p, k, x] @ '','' @ extra" False]
    by (simp add: insert1_def Result_seven bind_def)
qed


subsection \<open>The context path and the effects of a run\<close>

text \<open>The context path is always defined: \<^verbatim>\<open>max\<close> is never called on an empty
  dictionary.\<close>

lemma count_dirs_keeps: "dirs \<noteq> [] \<Longrightarrow> count_dirs dirs items \<noteq> []"
proof (induction items arbitrary: dirs)
  case Nil
  then show ?case by simp
next
  case (Cons item items)
  have "(case map_of dirs item of
           None \<Rightarrow> dirs @ [(item, 1)]
         | Some n \<Rightarrow> map (\<lambda>(k, v). if k = item then (k, n + 1) else (k, v)) dirs) \<noteq> []"
    using Cons.prems by (simp split: option.splits)
  then show ?case using Cons.IH by simp
qed

lemma count_dirs_nonempty: "items \<noteq> [] \<Longrightarrow> count_dirs [] items \<noteq> []"
  by (cases items) (simp_all add: count_dirs_keeps)

lemma determine_context_path_total: "\<exists>p. determine_context_path h view = Inr p"
proof (cases "file_name view")
  case (Some name)
  then show ?thesis by (simp add: determine_context_path_def)
next
  case None
  show ?thesis
    using None count_dirs_nonempty
    by (auto simp: determine_context_path_def Let_def py_max_def split: list.splits)
qed

lemma determine_context_path_saved:
  "file_name view = Some name \<Longrightarrow> determine_context_path h view = Inr name"
  by (simp add: determine_context_path_def)

lemma example_context_path:
  "determine_context_path (example_host outcome) example_view = Inr ''/proj/src/main.rs''"
  by (simp add: determine_context_path_def example_view_def)

lemma spawned_append: "spawned (es @ fs) = spawned es @ spawned fs"
  by (induction es rule: spawned.induct) simp_all

lemma opened_append: "opened (es @ fs) = opened es @ opened fs"
  by (induction es rule: opened.induct) simp_all

lemma run_racer_cases:
  assumes "cmd_list \<noteq> []" and "determine_context_path h view = Inr context_path"
  shows "run_racer h (Some s) view cmd_list =
     (let argv = racer_bin s # cmd_list @ [context_path, ''-''];
          started = Spawn argv (racer_env h s) (os_name h = ''nt'') (buffer view)
      in case popen h argv (racer_env h s) (os_name h = ''nt'') (buffer view) of
           Inl e \<Rightarrow> (Inl e, [started])
         | Inr (exit_code, output, err) \<Rightarrow>
             if exit_code = 0
             then (parse_lines (hd cmd_list = ''complete-with-snippet'') [] (splitlines output),
                   [started])
             else (Inr [],
                   [started,
                    Print [PStr (''CMD: '' @ [CHR 0x27] @ py_join '' '' argv
                                 @ [CHR 0x27] @ '' failed: exit_code:''),
                           PInt exit_code, PBytes output, PBytes err]]))"
  using assms
  by (cases cmd_list) (simp_all add: run_racer_def py_index_def Let_def split: sum.splits)

lemma run_racer_spawned:
  assumes "cmd_list \<noteq> []" and "determine_context_path h view = Inr context_path"
  shows "spawned (snd (run_racer h (Some s) view cmd_list))
           = [racer_bin s # cmd_list @ [context_path, ''-'']]"
  using assms
  by (simp add: run_racer_cases Let_def split: sum.splits prod.splits)

lemma run_racer_opened: "opened (snd (run_racer h st view cmd_list)) = []"
  by (simp add: run_racer_def Let_def split: sum.splits prod.splits option.splits)

subsection \<open>Failures of the engine\<close>

text \<open>
  Claim C1. When the engine exits with a status other than zero, \<^verbatim>\<open>run_racer\<close>
  returns the empty list, not an exception, whatever was captured on standard output,
  and prints one entry made of the command line, the exit code, the captured output and
  the captured error.
\<close>

theorem nonzero_exit_logged:
  assumes "cmd_list \<noteq> []"
    and "determine_context_path h view = Inr context_path"
    and "argv = racer_bin s # cmd_list @ [context_path, ''-'']"
    and "popen h argv (racer_env h s) (os_name h = ''nt'') (buffer view)
           = Inr (exit_code, output, err)"
    and "exit_code \<noteq> 0"
  shows "run_racer h (Some s) view cmd_list =
           (Inr [],
            [Spawn argv (racer_env h s) (os_name h = ''nt'') (buffer view),
             Print [PStr (''CMD: '' @ [CHR 0x27] @ py_join '' '' argv
                          @ [CHR 0x27] @ '' failed: exit_code:''),
                    PInt exit_code, PBytes output, PBytes err]])"
  using assms by (simp add: run_racer_cases Let_def)

theorem nonzero_exit_logged_witness:
  "run_racer (example_host (Inr (1, ''MATCH foo;foo_snip;3;10;/tmp/x.rs;Function;fn foo()'',
                                   ''racer: error''))) (Some example_settings) example_view
     [''complete-with-snippet'', ''1'', ''3''] =
     (Inr [],
      [Spawn [''racer'', ''complete-with-snippet'', ''1'', ''3'', ''/proj/src/main.rs'', ''-'']
         [(''HOME'', ''/home/u''), (''RUST_SRC_PATH'', ''/usr/src/rust'')] False ''fn main() {}'',
       Print [PStr (''CMD: '' @ [CHR 0x27]
                    @ ''racer complete-with-snippet 1 3 /proj/src/main.rs -''
                    @ [CHR 0x27] @ '' failed: exit_code:''),
              PInt 1, PBytes ''MATCH foo;foo_snip;3;10;/tmp/x.rs;Function;fn foo()'',
              PBytes ''racer: error'']])"
proof -
  let ?h = "example_host (Inr (1, ''MATCH foo;foo_snip;3;10;/tmp/x.rs;Function;fn foo()'',
                                   ''racer: error''))"
  let ?argv = "[''racer'', ''complete-with-snippet'', ''1'', ''3'', ''/proj/src/main.rs'', ''-'']"
  have h1: "[''complete-with-snippet'', ''1'', ''3''] \<noteq> []" by simp
  have h3: "?argv = racer_bin example_settings # [''complete-with-snippet'', ''1'', ''3'']
                      @ [''/proj/src/main.rs'', ''-'']"
    by (simp add: example_settings_def)
  have h4: "popen ?h ?argv (racer_env ?h example_settings) (os_name ?h = ''nt'')
              (buffer example_view)
            = Inr (1, ''MATCH foo;foo_snip;3;10;/tmp/x.rs;Function;fn foo()'', ''racer: error'')"
    by (simp add: example_host_def)
  have h5: "(1::int) \<noteq> 0" by simp
  have e: "racer_env ?h example_settings
             = [(''HOME'', ''/home/u''), (''RUST_SRC_PATH'', ''/usr/src/rust'')]"
    by (simp add: racer_env_def example_host_def example_settings_def expand_all_def)
  have o: "(os_name ?h = ''nt'') = False" "buffer example_view = ''fn main() {}''"
    by (simp_all add: example_host_def example_view_def)
  show ?thesis
    using nonzero_exit_logged [OF h1 example_context_path h3 h4 h5] e o by simp
qed

text \<open>
  A missing racer executable makes \<^verbatim>\<open>Popen\<close> raise \<^verbatim>\<open>FileNotFoundError\<close>. The
  completion handler catches it, prints its message and returns nothing; the
  go-to-definition command does not catch it, so the exception leaves \<^verbatim>\<open>run\<close>.
\<close>

lemma completions_racer_missing:
  assumes "py_index locations 0 = Inr loc" and "match_selector view loc ''source.rust''"
    and "determine_context_path h view = Inr context_path"
    and "\<forall>argv env si inp. popen h argv env si inp = Inl FileNotFoundError"
  shows "fst (on_query_completions h (Some s) view pfx locations) = Inr None
       \<and> last (snd (on_query_completions h (Some s) view pfx locations))
           = Print [PStr ''Unable to find racer executable (check settings)'']"
  using assms
  by (simp add: on_query_completions_def run_racer_cases Let_def split: prod.splits)

lemma goto_definition_racer_missing:
  assumes "py_index (sel view) 0 = Inr (a, b)"
    and "determine_context_path h view = Inr context_path"
    and "\<forall>argv env si inp. popen h argv env si inp = Inl FileNotFoundError"
  shows "fst (RustGotoDefinitionCommand_run h (Some s) view) = Inl FileNotFoundError"
  using assms
  by (simp add: RustGotoDefinitionCommand_run_def run_racer_cases Let_def split: prod.splits)

text \<open>
  Claim C7, evaluated where racer is missing: \<^verbatim>\<open>RustGotoDefinitionCommand.run\<close> ends
  in \<^verbatim>\<open>FileNotFoundError\<close> with nothing printed, while \<^verbatim>\<open>on_query_completions\<close> on
  the same platform prints the message and returns \<^verbatim>\<open>None\<close>.
\<close>

theorem goto_definition_engine_not_found:
  "RustGotoDefinitionCommand_run (example_host (Inl FileNotFoundError)) (Some example_settings)
     example_view =
     (Inl FileNotFoundError,
      [Spawn [''racer'', ''find-definition'', ''1'', ''3'', ''/proj/src/main.rs'', ''-'']
         [(''HOME'', ''/home/u''), (''RUST_SRC_PATH'', ''/usr/src/rust'')] False ''fn main() {}''])
   \<and> on_query_completions (example_host (Inl FileNotFoundError)) (Some example_settings)
       example_view [] [3] =
     (Inr None,
      [Spawn [''racer'', ''complete-with-snippet'', ''1'', ''3'', ''/proj/src/main.rs'', ''-'']
         [(''HOME'', ''/home/u''), (''RUST_SRC_PATH'', ''/usr/src/rust'')] False ''fn main() {}'',
       Print [PStr ''Unable to find racer executable (check settings)'']])"
  by code_simp

subsection \<open>The command line\<close>

text \<open>
  Claim C6. The process is started once, with the argument vector made of the engine
  binary, the command, the row, the column, the context path and a final \<^verbatim>\<open>-\<close>, in
  that order.
\<close>

theorem argument_vector:
  assumes "determine_context_path h view = Inr context_path"
  shows "spawned (snd (run_racer h (Some s) view [command, r, c]))
           = [[racer_bin s, command, r, c, context_path, ''-'']]"
  using assms run_racer_spawned [of "[command, r, c]" h view context_path s] by simp

theorem argument_vector_witness:
  "spawned (snd (run_racer (example_host (Inr (0, [], []))) (Some example_settings) example_view
                   [''find-definition'', ''7'', ''2'']))
     = [[''racer'', ''find-definition'', ''7'', ''2'', ''/proj/src/main.rs'', ''-'']]"
  using argument_vector [OF example_context_path, of "Inr (0, [], [])" example_settings
          "''find-definition''" "''7''" "''2''"]
  by (simp add: example_settings_def)

text \<open>
  Claim C8, as the code has it. Both handlers pass the editor's row plus one and the
  editor's column unchanged: the row on the command line is one-based, the column stays
  zero-based.
\<close>

theorem cursor_position_passed:
  assumes "determine_context_path h view = Inr context_path"
  shows "(py_index locations 0 = Inr loc \<and> match_selector view loc ''source.rust''
            \<and> rowcol view loc = (rw, cl) \<longrightarrow>
          spawned (snd (on_query_completions h (Some s) view pfx locations))
            = [[racer_bin s, ''complete-with-snippet'', py_str (int rw + 1), py_str (int cl),
                context_path, ''-'']])
       \<and> (py_index (sel view) 0 = Inr (a, b) \<and> rowcol view (min a b) = (rw, cl) \<longrightarrow>
          spawned (snd (RustGotoDefinitionCommand_run h (Some s) view))
            = [[racer_bin s, ''find-definition'', py_str (int rw + 1), py_str (int cl),
                context_path, ''-'']])"
proof -
  have c: "spawned (snd (run_racer h (Some s) view [cmd, r, c]))
             = [[racer_bin s, cmd, r, c, context_path, ''-'']]" for cmd r c
    using run_racer_spawned [of "[cmd, r, c]" h view context_path s] assms by simp
  have 1: "spawned (snd (on_query_completions h (Some s) view pfx locations))
            = [[racer_bin s, ''complete-with-snippet'', py_str (int rw + 1), py_str (int cl),
                context_path, ''-'']]"
    if "py_index locations 0 = Inr loc" "match_selector view loc ''source.rust''"
       "rowcol view loc = (rw, cl)"
    using that c [of "''complete-with-snippet''" "py_str (int rw + 1)" "py_str (int cl)"]
    by (auto simp: on_query_completions_def Let_def spawned_append add.commute
             split: prod.splits sum.splits)
  have 2: "spawned (snd (RustGotoDefinitionCommand_run h (Some s) view))
            = [[racer_bin s, ''find-definition'', py_str (int rw + 1), py_str (int cl),
                context_path, ''-'']]"
    if "py_index (sel view) 0 = Inr (a, b)" "rowcol view (min a b) = (rw, cl)"
    using that c [of "''find-definition''" "py_str (int rw + 1)" "py_str (int cl)"]
    by (auto simp: RustGotoDefinitionCommand_run_def Let_def spawned_append add.commute
             split: prod.splits sum.splits)
  from 1 2 show ?thesis by blast
qed

theorem cursor_position_passed_witness:
  "spawned (snd (on_query_completions (example_host (Inr (0, [], []))) (Some example_settings)
                   example_view [] [3]))
     = [[''racer'', ''complete-with-snippet'', ''1'', ''3'', ''/proj/src/main.rs'', ''-'']]
   \<and> spawned (snd (RustGotoDefinitionCommand_run (example_host (Inr (0, [], [])))
                     (Some example_settings) example_view))
     = [[''racer'', ''find-definition'', ''1'', ''3'', ''/proj/src/main.rs'', ''-'']]"
proof -
  have l: "py_index [3::nat] 0 = Inr 3" by (simp add: py_index_def)
  have m: "match_selector example_view 3 ''source.rust''" by (simp add: example_view_def)
  have r: "rowcol example_view 3 = (0, 3)" by (simp add: example_view_def)
  have g: "py_index (sel example_view) 0 = Inr (3, 3)"
    by (simp add: example_view_def py_index_def)
  have r': "rowcol example_view (min 3 3) = (0, 3)" by (simp add: example_view_def)
  have s: "py_str (int 0 + 1) = ''1''" "py_str (int 3) = ''3''" by code_simp+
  have b: "racer_bin example_settings = ''racer''" by (simp add: example_settings_def)
  show ?thesis
    using cursor_position_passed [OF example_context_path,
            of "[3]" 3 0 3 "Inr (0, [], [])" example_settings "[]" 3 3]
      l m r g r' s b by simp
qed

text \<open>
  Claim C8 as stated fails: with the cursor at row 0, column 3 of the editor, the
  column on the command line is 3, not 4.
\<close>

theorem column_not_one_based:
  "rowcol example_view 3 = (0, 3)
   \<and> spawned (snd (on_query_completions (example_host (Inr (0, [], []))) (Some example_settings)
                     example_view [] [3])) ! 0 ! 3 = ''3''
   \<and> spawned (snd (on_query_completions (example_host (Inr (0, [], []))) (Some example_settings)
                     example_view [] [3])) ! 0 ! 3 \<noteq> py_str (int (snd (rowcol example_view 3)) + 1)"
  by code_simp

subsection \<open>Malformed lines\<close>

lemma short_line_never_parses:
  assumes "utf8_valid (match_string @ rest)"
    and "length (py_split CHR '';'' 7 rest) < 7"
  shows "\<exists>e. parse_line True (match_string @ rest) = Inl e"
  using Result_short [OF assms(2)] assms(1)
  by (auto simp: parse_line_match bind_def)

text \<open>
  Claim C9. There is an output line with the prefix and fewer than seven fields for
  which building the record raises \<^verbatim>\<open>IndexError\<close>, with exit status zero.
\<close>

theorem short_match_line_raises:
  "\<exists>line. prefix match_string line
      \<and> length (py_split CHR '';'' 7 (drop (length match_string) line)) < 7
      \<and> fst (run_racer (example_host (Inr (0, line, []))) (Some example_settings) example_view
                [''complete-with-snippet'', ''1'', ''3'']) = Inl IndexError"
proof (intro exI [of _ "''MATCH foo;foo_snip''"] conjI)
  show "prefix match_string ''MATCH foo;foo_snip''" by (simp add: match_string_def)
  show "length (py_split CHR '';'' 7 (drop (length match_string) ''MATCH foo;foo_snip'')) < 7"
    by code_simp
  show "fst (run_racer (example_host (Inr (0, ''MATCH foo;foo_snip'', []))) (Some example_settings)
               example_view [''complete-with-snippet'', ''1'', ''3'']) = Inl IndexError"
    by code_simp
qed

subsection \<open>Ranking of completions\<close>







subsection \<open>Go to definition\<close>

text \<open>What the drive test says on paths that start with an ASCII character, and on
  paths that start with a code point outside ASCII.\<close>

lemma has_drive_ascii:
  "in_range c 0x00 0x7F \<Longrightarrow> \<not> is_cont d \<Longrightarrow>
   has_drive h (c # d # rest) =
     ((in_range c 0x61 0x7A \<or> in_range c 0x41 0x5A \<or> in_range c 0x30 0x39 \<or> c = CHR ''_'')
      \<and> d = CHR '':'')"
  by (simp add: has_drive_def first_char_def is_word_char_def)

lemma has_drive_short: "length p < 2 \<Longrightarrow> \<not> has_drive h p"
  by (cases p) (auto simp: has_drive_def first_char_def split: list.splits)

lemma has_drive_two_bytes:
  "\<not> in_range c 0x00 0x7F \<Longrightarrow> is_cont c' \<Longrightarrow> \<not> is_cont d \<Longrightarrow>
   has_drive h (c # c' # d # rest) = (unicode_alnum h [c, c'] \<and> d = CHR '':'')"
  by (simp add: has_drive_def first_char_def is_word_char_def)

text \<open>
  Claim C5. When racer's answer parses to exactly one record, the command opens one
  file, at \<^verbatim>\<open>path:row:column\<close> of that record; on Windows the path is given the prefix
  \<^verbatim>\<open>c:\<close> when it does not start with a word character and a colon, and on every other
  platform, or with such a start, it is passed as it is. With no record or with
  several, nothing is opened.
\<close>

theorem goto_definition_target:
  assumes "py_index (sel view) 0 = Inr (a, b)"
    and "rowcol view (min a b) = (rw, cl)"
    and "run_racer h st view [''find-definition'', py_str (int rw + 1), py_str (int cl)]
           = (Inr results, es)"
    and "target =
           (if platform h = ''windows'' \<and> \<not> has_drive h (path (hd results))
            then ''c:'' @ path (hd results) else path (hd results))
           @ '':'' @ py_str (row (hd results)) @ '':'' @ py_str (column (hd results))"
  shows "RustGotoDefinitionCommand_run h st view =
           (Inr (),
            es @ (if length results = 1 then [OpenFile target [ENCODED_POSITION]] else []))
         \<and> opened (snd (RustGotoDefinitionCommand_run h st view)) =
           (if length results = 1 then [target] else [])"
proof -
  have o: "opened es = []"
    using run_racer_opened [of h st view
            "[''find-definition'', py_str (int rw + 1), py_str (int cl)]"] assms(3) by simp
  have "RustGotoDefinitionCommand_run h st view =
           (Inr (),
            es @ (if length results = 1 then [OpenFile target [ENCODED_POSITION]] else []))"
    using assms
    by (cases results)
       (simp_all add: RustGotoDefinitionCommand_run_def Let_def encoded_path_def
          normalize_path_def add.commute)
  then show ?thesis using o by (simp add: opened_append)
qed

theorem goto_definition_target_witness:
  "opened (snd (RustGotoDefinitionCommand_run
      (example_host (Inr (0, ''MATCH lib,5,2,/proj/src/lib.rs,Module,/proj/src/lib.rs'', [])))
      (Some example_settings) example_view)) = [''/proj/src/lib.rs:5:2'']
   \<and> opened (snd (RustGotoDefinitionCommand_run
      (example_host (Inr (0, ''MATCH a,5,2,/p/a.rs,Module,/p/a.rs'' @ [CHR 0x0A]
                             @ ''MATCH b,6,1,/p/b.rs,Module,/p/b.rs'', [])))
      (Some example_settings) example_view)) = []
   \<and> opened (snd (RustGotoDefinitionCommand_run
      (example_windows_host (Inr (0, ''MATCH lib,5,2,/src/lib.rs,Module,/src/lib.rs'', [])))
      (Some example_settings) example_view)) = [''c:/src/lib.rs:5:2'']
   \<and> opened (snd (RustGotoDefinitionCommand_run
      (example_windows_host (Inr (0, ''MATCH lib,5,2,d:/src/lib.rs,Module,d:/src/lib.rs'', [])))
      (Some example_settings) example_view)) = [''d:/src/lib.rs:5:2'']
   \<and> opened (snd (RustGotoDefinitionCommand_run
      (example_windows_host
         (Inr (0, ''MATCH lib,5,2,'' @ [CHR 0xC3, CHR 0xA9] @ '':/src/lib.rs,Module,lib'', [])))
      (Some example_settings) example_view))
       = [[CHR 0xC3, CHR 0xA9] @ '':/src/lib.rs:5:2'']"
proof -
  let ?one = "example_host (Inr (0, ''MATCH lib,5,2,/proj/src/lib.rs,Module,/proj/src/lib.rs'', []))"
  let ?two = "example_host (Inr (0, ''MATCH a,5,2,/p/a.rs,Module,/p/a.rs'' @ [CHR 0x0A]
                             @ ''MATCH b,6,1,/p/b.rs,Module,/p/b.rs'', []))"
  let ?w1 = "example_windows_host
               (Inr (0, ''MATCH lib,5,2,/src/lib.rs,Module,/src/lib.rs'', []))"
  let ?w2 = "example_windows_host
               (Inr (0, ''MATCH lib,5,2,d:/src/lib.rs,Module,d:/src/lib.rs'', []))"
  let ?w3 = "example_windows_host
               (Inr (0, ''MATCH lib,5,2,'' @ [CHR 0xC3, CHR 0xA9] @ '':/src/lib.rs,Module,lib'', []))"
  let ?es = "[Spawn [''racer'', ''find-definition'', ''1'', ''3'', ''/proj/src/main.rs'', ''-'']
              [(''HOME'', ''/home/u''), (''RUST_SRC_PATH'', ''/usr/src/rust'')] False
              ''fn main() {}'']"
  let ?wes = "[Spawn [''racer'', ''find-definition'', ''1'', ''3'', ''/proj/src/main.rs'', ''-'']
              [(''HOME'', ''/home/u''), (''RUST_SRC_PATH'', ''/usr/src/rust'')] True
              ''fn main() {}'']"
  have g: "py_index (sel example_view) 0 = Inr (3, 3)"
    by (simp add: example_view_def py_index_def)
  have r: "rowcol example_view (min 3 3) = (0, 3)" by (simp add: example_view_def)
  have one: "run_racer ?one (Some example_settings) example_view
               [''find-definition'', py_str (int 0 + 1), py_str (int 3)]
             = (Inr [\<lparr>completion = ''lib'', snippet = [], row = 5, column = 2,
                      path = ''/proj/src/lib.rs'', type = ''Module'',
                      context = ''/proj/src/lib.rs''\<rparr>], ?es)"
    by code_simp
  have two: "run_racer ?two (Some example_settings) example_view
               [''find-definition'', py_str (int 0 + 1), py_str (int 3)]
             = (Inr [\<lparr>completion = ''a'', snippet = [], row = 5, column = 2,
                      path = ''/p/a.rs'', type = ''Module'', context = ''/p/a.rs''\<rparr>,
                     \<lparr>completion = ''b'', snippet = [], row = 6, column = 1,
                      path = ''/p/b.rs'', type = ''Module'', context = ''/p/b.rs''\<rparr>], ?es)"
    by code_simp
  have w1: "run_racer ?w1 (Some example_settings) example_view
               [''find-definition'', py_str (int 0 + 1), py_str (int 3)]
             = (Inr [\<lparr>completion = ''lib'', snippet = [], row = 5, column = 2,
                      path = ''/src/lib.rs'', type = ''Module'',
                      context = ''/src/lib.rs''\<rparr>], ?wes)"
    by code_simp
  have w2: "run_racer ?w2 (Some example_settings) example_view
               [''find-definition'', py_str (int 0 + 1), py_str (int 3)]
             = (Inr [\<lparr>completion = ''lib'', snippet = [], row = 5, column = 2,
                      path = ''d:/src/lib.rs'', type = ''Module'',
                      context = ''d:/src/lib.rs''\<rparr>], ?wes)"
    by code_simp
  have w3: "run_racer ?w3 (Some example_settings) example_view
               [''find-definition'', py_str (int 0 + 1), py_str (int 3)]
             = (Inr [\<lparr>completion = ''lib'', snippet = [], row = 5, column = 2,
                      path = [CHR 0xC3, CHR 0xA9] @ '':/src/lib.rs'', type = ''Module'',
                      context = ''lib''\<rparr>], ?wes)"
    by code_simp
  have p: "platform ?one \<noteq> ''windows''" "platform ?w1 = ''windows''"
    "platform ?w2 = ''windows''" "platform ?w3 = ''windows''"
    by (simp_all add: example_host_def example_windows_host_def)
  have d: "\<not> has_drive ?w1 ''/src/lib.rs''" "has_drive ?w2 ''d:/src/lib.rs''"
    "has_drive ?w3 ([CHR 0xC3, CHR 0xA9] @ '':/src/lib.rs'')"
    by code_simp+
  have s: "py_str 5 = ''5''" "py_str 2 = ''2''" by code_simp+
  show ?thesis
    using goto_definition_target [OF g r one refl] goto_definition_target [OF g r two refl]
      goto_definition_target [OF g r w1 refl] goto_definition_target [OF g r w2 refl]
      goto_definition_target [OF g r w3 refl] p d s
    by simp
qed

subsection \<open>Scenarios\<close>

text \<open>Exit code zero and one well-formed line on standard output give one record.\<close>

lemma scenario_one_completion:
  "run_racer
     (example_host (Inr (0, ''MATCH foo;foo_snip;3;10;/tmp/x.rs;Function;fn foo()'' @ [CHR 0x0A],
                         [])))
     (Some example_settings) example_view [''complete-with-snippet'', ''1'', ''3''] =
   (Inr [\<lparr>completion = ''foo'', snippet = ''foo_snip'', row = 3, column = 10,
          path = ''/tmp/x.rs'', type = ''Function'', context = ''fn foo()''\<rparr>],
    [Spawn [''racer'', ''complete-with-snippet'', ''1'', ''3'', ''/proj/src/main.rs'', ''-'']
       [(''HOME'', ''/home/u''), (''RUST_SRC_PATH'', ''/usr/src/rust'')] False
       ''fn main() {}''])"
  by code_simp

text \<open>An unsaved buffer beside open Rust files takes the most frequent directory; with
  no Rust file open the context path is the placeholder.\<close>

lemma scenario_transient_path:
  "determine_context_path (example_host (Inl OSError))
     (example_view\<lparr>file_name := None,
                    window_views := [Some ''/a/b/f.rs'', None, Some ''/a/c/g.rs'',
                                     Some ''/a/c/h.rs'', Some ''/x/y.txt'']\<rparr>)
     = Inr ''/a/c/_transient.rs''
   \<and> determine_context_path (example_host (Inl OSError))
       (example_view\<lparr>file_name := None, window_views := [None, Some ''/x/y.txt'']\<rparr>)
     = Inr ''-''"
  by code_simp

end
